theory Spec2Isabelle
  imports Main
begin

section \<open>The Inspector module of Brackets (LiveDevelopment/Inspector/ChromeInspector.js)\<close>

text \<open>
  The module keeps five variables (\<open>_messageId\<close>, \<open>_messageCallbacks\<close>,
  \<open>_connectDeferred\<close>, \<open>_port\<close>, \<open>_portId\<close>) and the object \<open>exports\<close>. Every function
  of the module is embedded as a function from the module state to the new state, the
  list of calls it makes on its collaborators (the port, the Chrome runtime, the event
  library, the console, the stored callbacks) in the order it makes them, and its return
  value or the exception it throws.

  Boundaries of the model:
  \<^item> The leading underscore of the source's private names is dropped.
  \<^item> \<open>_messageId\<close> is a natural number. A JavaScript number counts exactly up to
    \<open>2^53\<close>; the model describes the module below that many sent commands.
  \<^item> A callback, a listener and a port are opaque: calling one is recorded, what it does
    when called (it could call back into the module) is not part of the module.
  \<^item> \<open>console.log\<close> tracing is left out; a failing \<open>console.assert\<close> is recorded.
  \<^item> An inbound message is an object with the members the module reads: a numeric
    \<open>id\<close>, an \<open>error\<close> and a \<open>result\<close> of any JSON value, a \<open>method\<close> string and
    \<open>params\<close> of any JSON value; each may be absent.
  \<^item> \<open>getDebuggableWindows\<close>, \<open>on\<close> and \<open>off\<close> only pass their arguments to the runtime
    and to the event library; they read and change nothing of the module and are left out.
\<close>

subsection \<open>JavaScript values\<close>

text \<open>JSON data. Numbers are integers here; an array is the object of its indices.\<close>

datatype json = JNull | JBool bool | JNum int | JStr string | JObj "(string \<times> json) list"

text \<open>A value passed to a command function: \<open>undefined\<close>, a function, or data.\<close>

datatype jsval = Undefined | Function nat | Data json

text \<open>ToBoolean of a member that may be absent (\<open>None\<close> is \<open>undefined\<close>).\<close>

fun truthy :: "json option \<Rightarrow> bool" where
  "truthy None = False"
| "truthy (Some JNull) = False"
| "truthy (Some (JBool b)) = b"
| "truthy (Some (JNum n)) = (n \<noteq> 0)"
| "truthy (Some (JStr s)) = (s \<noteq> [])"
| "truthy (Some (JObj ms)) = True"

text \<open>
  \<open>obj[key] = v\<close> on an object kept as the list of its members in insertion order: an
  existing member keeps its place, a new one goes last.
\<close>

fun set_property :: "string \<Rightarrow> 'a \<Rightarrow> (string \<times> 'a) list \<Rightarrow> (string \<times> 'a) list" where
  "set_property k v [] = [(k, v)]"
| "set_property k v ((k', v') # ms) =
     (if k' = k then (k, v) # ms else (k', v') # set_property k v ms)"

subsection \<open>The protocol description (Inspector.json)\<close>

text \<open>
  \<open>parameters\<close> is the array of a command's parameter objects; a command without the
  member has \<open>[]\<close> here (\<open>for (i in undefined)\<close> runs no iteration, as for the empty
  array). \<open>optional\<close> holds exactly when the parameter object has \<open>optional: true\<close>.
\<close>

record parameter_descriptor =
  name :: string
  optional :: bool

record command_descriptor =
  command_name :: string
  parameters :: "parameter_descriptor list"

record domain_descriptor =
  domain :: string
  commands :: "command_descriptor list"

text \<open>The parameter object as the JavaScript value \<open>signature[i]\<close>.\<close>

definition descriptor_value :: "parameter_descriptor \<Rightarrow> jsval" where
  "descriptor_value d =
     Data (JObj ((''name'', JStr (name d)) #
                 (if optional d then [(''optional'', JBool True)] else [])))"

subsection \<open>Module state and the calls the module makes\<close>

text \<open>
  The callback stored for a command: the function the caller passed last, or the
  function \<open>_send\<close> makes to resolve the deferred it created. That deferred is named by
  the id of the command it was created for.
\<close>

datatype continuation = Callback nat | ResolveDeferred nat

datatype field = FString string | FNumber nat | FObject "(string \<times> jsval) list"

type_synonym envelope = "(string \<times> field) list"

record message =
  msg_id :: "nat option"
  msg_error :: "json option"
  msg_result :: "json option"
  msg_method :: "string option"
  msg_params :: "json option"

datatype notification_data = NoData | MessageData message | ErrorData "json option"

datatype effect =
    MissingArgument jsval
  | PostMessage nat envelope continuation
  | ExportsTrigger string notification_data
  | DomainTrigger "string option" "string option" "json option"
  | Invoke continuation "(string \<times> json) list"
  | PortDisconnect nat
  | PortRemoveListener nat string
  | PortAddListener nat string
  | RuntimeSendMessage string
  | RuntimeConnect nat
  | ConnectDeferredResolve
  | ConnectDeferredReject "string option"

datatype error = TypeError

text \<open>
  \<open>port\<close> is \<open>None\<close> when \<open>_port\<close> is falsy; an open port is named by the number in its
  name \<open>"port-" + n\<close>. \<open>connectDeferred\<close> tells whether \<open>_connectDeferred\<close> holds a
  deferred. \<open>exports\<close> holds the command functions \<open>init\<close> made: \<open>exports[domain][command]\<close>
  is \<open>_send\<close> bound to a method name and a signature.
\<close>

record state =
  messageId :: nat
  messageCallbacks :: "nat \<rightharpoonup> continuation"
  connectDeferred :: bool
  port :: "nat option"
  portId :: nat
  exports :: "string \<rightharpoonup> (string \<rightharpoonup> string \<times> parameter_descriptor list)"

definition initial_state :: state where
  "initial_state =
     \<lparr>messageId = 1, messageCallbacks = Map.empty, connectDeferred = False,
      port = None, portId = 0, exports = Map.empty\<rparr>"

subsection \<open>Sending a command\<close>

text \<open>
  \<open>_verifySignature(signature, value)\<close>: when \<open>value\<close> is \<open>undefined\<close>, assert that
  \<open>signature.optional === true\<close> with the message \<open>"Missing argument: " + signature.name\<close>
  (reading a member of \<open>undefined\<close> or \<open>null\<close> throws); return \<open>true\<close>. A failed assertion
  is recorded as \<open>MissingArgument signature\<close>.
\<close>

definition optional_is_true :: "jsval \<Rightarrow> bool" where
  "optional_is_true signature =
     (case signature of
        Data (JObj ms) \<Rightarrow> map_of ms ''optional'' = Some (JBool True)
      | _ \<Rightarrow> False)"

definition verifySignature :: "jsval \<Rightarrow> jsval \<Rightarrow> error + effect list \<times> bool" where
  "verifySignature signature value =
     (if value = Undefined then
        (if signature = Undefined \<or> signature = Data JNull then Inl TypeError
         else Inr (if optional_is_true signature then [] else [MissingArgument signature],
                   True))
      else Inr ([], True))"

text \<open>\<open>args[i]\<close>: \<open>undefined\<close> beyond the end of the array.\<close>

definition arg_at :: "jsval list \<Rightarrow> nat \<Rightarrow> jsval" where
  "arg_at args i = (if i < length args then args ! i else Undefined)"

text \<open>
  The loop \<open>for (i in signature)\<close> of \<open>_send\<close>, from index \<open>i\<close> on:
  \<open>if (_verifySignature(args[i], signature[i])) { params[signature[i].name] = args[i]; }\<close>.
  It returns the \<open>params\<close> object, the failed assertions, and the exception if one
  stopped it.
\<close>

fun build_params ::
  "parameter_descriptor list \<Rightarrow> nat \<Rightarrow> jsval list \<Rightarrow> (string \<times> jsval) list \<Rightarrow> effect list \<Rightarrow>
   (string \<times> jsval) list \<times> effect list \<times> error option" where
  "build_params [] i args params fx = (params, fx, None)"
| "build_params (d # ds) i args params fx =
     (case verifySignature (arg_at args i) (descriptor_value d) of
        Inl e \<Rightarrow> (params, fx, Some e)
      | Inr (fx', ok) \<Rightarrow>
          build_params ds (Suc i) args
            (if ok then set_property (name d) (arg_at args i) params else params)
            (fx @ fx'))"

text \<open>
  The head of \<open>_send\<close>: when the last argument is a function it is taken off as the
  callback (\<open>args[args.length - 1]\<close> of the empty array is \<open>undefined\<close>); otherwise a
  deferred is created, its promise is what \<open>_send\<close> returns, and the callback resolves
  it. The result is \<open>args\<close>, \<open>callback\<close> and \<open>promise\<close> (\<open>None\<close> is \<open>undefined\<close>).
\<close>

definition extract_callback ::
  "jsval list \<Rightarrow> nat \<Rightarrow> jsval list \<times> continuation \<times> nat option" where
  "extract_callback varargs i =
     (case (if varargs = [] then Undefined else last varargs) of
        Function f \<Rightarrow> (butlast varargs, Callback f, None)
      | _ \<Rightarrow> (varargs, ResolveDeferred i, Some i))"

text \<open>
  \<open>_send(method, signature, varargs)\<close>. The result is the state, the calls made, and
  the returned promise or the exception. Past the first test \<open>_port\<close> is truthy, so
  \<open>console.assert(_port, ...)\<close> cannot fail. In the loop the value \<open>args[i]\<close> is passed
  first and the parameter object \<open>signature[i]\<close> second, as the source has it.
\<close>

definition send ::
  "string \<Rightarrow> parameter_descriptor list \<Rightarrow> jsval list \<Rightarrow> state \<Rightarrow>
   state \<times> effect list \<times> (error + nat option)" where
  "send method signature varargs s =
     (case port s of
        None \<Rightarrow> (s, [], Inr None)
      | Some p \<Rightarrow>
          (let i = messageId s;
               (args, callback, promise) = extract_callback varargs i;
               s' = s\<lparr>messageId := i + 1,
                       messageCallbacks := (messageCallbacks s)(i \<mapsto> callback)\<rparr>;
               (params, fx, thrown) = build_params signature 0 args [] [];
               message = [(''cmd'', FString ''sendCommand''), (''method'', FString method),
                          (''params'', FObject params), (''id'', FNumber i)]
           in (case thrown of
                 Some e \<Rightarrow> (s', fx, Inl e)
               | None \<Rightarrow> (s', fx @ [PostMessage p message callback], Inr promise))))"

subsection \<open>Command functions made by \<open>init\<close>\<close>

text \<open>
  \<open>init\<close> reads the protocol description \<open>InspectorJSON\<close> (the parsed Inspector.json, a
  parameter here) and, for each domain in order, sets \<open>exports[domain.domain] = {}\<close> and
  then \<open>exports[domain.domain][command.name] =
  _send.bind(undefined, domain.domain + "." + command.name, command.parameters)\<close> for
  each of its commands. (\<open>exports.config\<close> is not modelled.)
\<close>

definition init_domain ::
  "domain_descriptor \<Rightarrow> (string \<rightharpoonup> (string \<rightharpoonup> string \<times> parameter_descriptor list)) \<Rightarrow>
   (string \<rightharpoonup> (string \<rightharpoonup> string \<times> parameter_descriptor list))" where
  "init_domain d ex =
     ex(domain d \<mapsto>
          fold (\<lambda>c m. m(command_name c \<mapsto> (domain d @ ''.'' @ command_name c, parameters c)))
               (commands d) Map.empty)"

definition init :: "domain_descriptor list \<Rightarrow> state \<Rightarrow> state" where
  "init InspectorJSON s = s\<lparr>exports := fold init_domain InspectorJSON (exports s)\<rparr>"

text \<open>
  The call \<open>exports[dname][cmd](args...)\<close>: reading a member of the undefined
  \<open>exports[dname]\<close>, or calling the undefined \<open>exports[dname][cmd]\<close>, throws.
\<close>

definition call_command ::
  "string \<Rightarrow> string \<Rightarrow> jsval list \<Rightarrow> state \<Rightarrow> state \<times> effect list \<times> (error + nat option)" where
  "call_command dname cmd args s =
     (case exports s dname of
        None \<Rightarrow> (s, [], Inl TypeError)
      | Some cs \<Rightarrow>
          (case cs cmd of
             None \<Rightarrow> (s, [], Inl TypeError)
           | Some (method, signature) \<Rightarrow> send method signature args s))"

subsection \<open>Port events\<close>

text \<open>\<open>_onDisconnect()\<close>: the port was closed from the other side.\<close>

definition onDisconnect :: "state \<Rightarrow> state \<times> effect list" where
  "onDisconnect s = (s\<lparr>port := None\<rparr>, [ExportsTrigger ''disconnect'' NoData])"

text \<open>\<open>_onError(error)\<close>.\<close>

definition onError :: "json option \<Rightarrow> state \<Rightarrow> state \<times> effect list" where
  "onError err s =
     (s\<lparr>connectDeferred := False\<rparr>,
      (if connectDeferred s then [ConnectDeferredReject None] else []) @
      [ExportsTrigger ''error'' (ErrorData err)])"

text \<open>\<open>_onConnect()\<close>.\<close>

definition onConnect :: "state \<Rightarrow> state \<times> effect list" where
  "onConnect s =
     (s\<lparr>connectDeferred := False\<rparr>,
      (if connectDeferred s then [ConnectDeferredResolve] else []) @
      [ExportsTrigger ''connect'' NoData])"

text \<open>
  \<open>String.prototype.split\<close> with a one-character separator: the pieces between the
  separators, one piece more than there are separators.
\<close>

fun split_on :: "char \<Rightarrow> string \<Rightarrow> string list" where
  "split_on c [] = [[]]"
| "split_on c (x # xs) =
     (if x = c then [] # split_on c xs
      else (case split_on c xs of
              [] \<Rightarrow> [[x]]
            | p # ps \<Rightarrow> (x # p) # ps))"

text \<open>\<open>xs[i]\<close> of an array: \<open>undefined\<close> (\<open>None\<close>) beyond its end.\<close>

definition nth_opt :: "'a list \<Rightarrow> nat \<Rightarrow> 'a option" where
  "nth_opt xs i = (if i < length xs then Some (xs ! i) else None)"

text \<open>
  The normalisation of \<open>_onMessage\<close>:
  \<open>if (!response.result.result) { response.result.result = { type: "undefined" }; }\<close>.
\<close>

definition normalize_result :: "(string \<times> json) list \<Rightarrow> (string \<times> json) list" where
  "normalize_result result =
     (if \<not> truthy (map_of result ''result'')
      then set_property ''result'' (JObj [(''type'', JStr ''undefined'')]) result
      else result)"

text \<open>
  \<open>_messageCallbacks[response.id]\<close>: the table has numeric keys only, so an absent id
  finds nothing.
\<close>

definition lookup_callback :: "state \<Rightarrow> nat option \<Rightarrow> continuation option" where
  "lookup_callback s i = (case i of None \<Rightarrow> None | Some n \<Rightarrow> messageCallbacks s n)"

definition delete_callback :: "nat option \<Rightarrow> state \<Rightarrow> state" where
  "delete_callback i s =
     (case i of
        None \<Rightarrow> s
      | Some n \<Rightarrow> s\<lparr>messageCallbacks := (messageCallbacks s)(n := None)\<rparr>)"

text \<open>
  \<open>_onMessage(response)\<close>. The result is the state, the calls made, the message object
  as the function leaves it (it assigns to \<open>response.result.result\<close>), and the exception
  if one was thrown. The three branches are chosen by the truth values of
  \<open>response.error\<close> and \<open>response.result\<close>. A truthy \<open>result\<close> that is not an object (a
  number, a string, \<open>true\<close>) has no member \<open>result\<close>, so the assignment to
  \<open>response.result.result\<close> is made, and on such a value it throws: the module is in
  strict mode. \<open>response.method.split(".")\<close> throws when \<open>method\<close> is absent.
\<close>

definition onMessage ::
  "message \<Rightarrow> state \<Rightarrow> state \<times> effect list \<times> message \<times> error option" where
  "onMessage response s =
     (let fx0 = [ExportsTrigger ''message'' (MessageData response)] in
      if truthy (msg_error response) then
        (s, fx0 @ [ExportsTrigger ''error'' (ErrorData (msg_error response))], response, None)
      else if truthy (msg_result response) then
        (case msg_result response of
           Some (JObj result) \<Rightarrow>
             (let result' = normalize_result result;
                  response' = response\<lparr>msg_result := Some (JObj result')\<rparr>
              in case lookup_callback s (msg_id response) of
                   Some callback \<Rightarrow>
                     (delete_callback (msg_id response) s,
                      fx0 @ [Invoke callback result'], response', None)
                 | None \<Rightarrow> (s, fx0, response', None))
         | _ \<Rightarrow> (s, fx0, response, Some TypeError))
      else
        (case msg_method response of
           None \<Rightarrow> (s, fx0, response, Some TypeError)
         | Some m \<Rightarrow>
             (let domainAndMethod = split_on CHR ''.'' m;
                  domain = nth_opt domainAndMethod 0;
                  method = nth_opt domainAndMethod 1
              in (s, fx0 @ [DomainTrigger domain method (msg_params response)],
                  response, None))))"

subsection \<open>Public functions\<close>

text \<open>\<open>disconnect()\<close>.\<close>

definition disconnect :: "state \<Rightarrow> state \<times> effect list" where
  "disconnect s =
     (case port s of
        Some p \<Rightarrow>
          (s\<lparr>port := None\<rparr>,
           [PortDisconnect p, PortRemoveListener p ''onDisconnect'',
            PortRemoveListener p ''onMessage''])
      | None \<Rightarrow> (s, []))"

text \<open>
  \<open>connect()\<close>: \<open>disconnect()\<close> returns a resolved promise, so the \<open>done\<close> handler runs
  at once and asks the extension to attach the debugger. The reply comes later, as
  \<open>attachDebugger_reply\<close>.
\<close>

definition connect :: "state \<Rightarrow> state \<times> effect list" where
  "connect s =
     (let (s1, fx) = disconnect s in (s1, fx @ [RuntimeSendMessage ''attachDebugger'']))"

text \<open>
  The callback \<open>function (result) { ... }\<close> of \<open>connect\<close>; \<open>result\<close> is the reply
  object (\<open>None\<close> is \<open>undefined\<close>, whose \<open>error\<close> cannot be read).
\<close>

definition attachDebugger_reply ::
  "(string \<times> json) list option \<Rightarrow> state \<Rightarrow> state \<times> effect list \<times> error option" where
  "attachDebugger_reply result s =
     (case result of
        None \<Rightarrow> (s, [], Some TypeError)
      | Some r \<Rightarrow>
          if truthy (map_of r ''error'') then
            (let (s1, fx) = onError (map_of r ''error'') s in (s1, fx, None))
          else
            (let n = portId s;
                 (s1, fx) = onConnect (s\<lparr>port := Some n, portId := n + 1\<rparr>)
             in (s1,
                 [RuntimeConnect n, PortAddListener n ''onDisconnect'',
                  PortAddListener n ''onMessage''] @ fx,
                 None)))"

text \<open>\<open>connectToURL()\<close>.\<close>

definition connectToURL :: "state \<Rightarrow> state \<times> effect list" where
  "connectToURL s =
     (let fx0 = (if connectDeferred s then [ConnectDeferredReject (Some ''CANCEL'')] else []);
          (s1, fx) = connect (s\<lparr>connectDeferred := True\<rparr>)
      in (s1, fx0 @ fx))"

text \<open>\<open>connected()\<close> returns \<open>_port\<close>; this is its truth value.\<close>

definition connected :: "state \<Rightarrow> bool" where
  "connected s = (port s \<noteq> None)"

subsection \<open>Runs of the module\<close>

text \<open>
  What can happen to the module, one entry per function entered from outside: a call of
  a public function or of a command function, or an event of the port or of the
  runtime. An exception ends the function that threw it; the state it left stays.
\<close>

datatype operation =
    Send string "parameter_descriptor list" "jsval list"
  | CallCommand string string "jsval list"
  | OnMessage message
  | OnDisconnect
  | AttachDebuggerReply "(string \<times> json) list option"
  | Connect
  | Disconnect
  | ConnectToURL
  | Init "domain_descriptor list"

fun step :: "operation \<Rightarrow> state \<Rightarrow> state \<times> effect list" where
  "step (Send method signature varargs) s =
     (let (s1, fx, r) = send method signature varargs s in (s1, fx))"
| "step (CallCommand dname cmd args) s =
     (let (s1, fx, r) = call_command dname cmd args s in (s1, fx))"
| "step (OnMessage response) s =
     (let (s1, fx, response', r) = onMessage response s in (s1, fx))"
| "step OnDisconnect s = onDisconnect s"
| "step (AttachDebuggerReply result) s =
     (let (s1, fx, r) = attachDebugger_reply result s in (s1, fx))"
| "step Connect s = connect s"
| "step Disconnect s = disconnect s"
| "step ConnectToURL s = connectToURL s"
| "step (Init InspectorJSON) s = (init InspectorJSON s, [])"

fun run :: "operation list \<Rightarrow> state \<Rightarrow> state \<times> effect list" where
  "run [] s = (s, [])"
| "run (x # xs) s =
     (let (s1, fx1) = step x s; (s2, fx2) = run xs s1 in (s2, fx1 @ fx2))"

text \<open>The ids of the envelopes posted to the port, in the order they were posted.\<close>

fun envelope_id :: "effect \<Rightarrow> nat list" where
  "envelope_id (PostMessage p env callback) =
     (case map_of env ''id'' of Some (FNumber n) \<Rightarrow> [n] | _ \<Rightarrow> [])"
| "envelope_id _ = []"

definition sent_ids :: "effect list \<Rightarrow> nat list" where
  "sent_ids fx = concat (map envelope_id fx)"

text \<open>The envelopes posted to the port and their \<open>params\<close> objects.\<close>

fun posted :: "effect \<Rightarrow> envelope list" where
  "posted (PostMessage p env callback) = [env]"
| "posted _ = []"

definition sent_envelopes :: "effect list \<Rightarrow> envelope list" where
  "sent_envelopes fx = concat (map posted fx)"

fun params_of :: "envelope \<Rightarrow> (string \<times> jsval) list list" where
  "params_of env = (case map_of env ''params'' of Some (FObject ps) \<Rightarrow> [ps] | _ \<Rightarrow> [])"

definition sent_params :: "effect list \<Rightarrow> (string \<times> jsval) list list" where
  "sent_params fx = concat (map params_of (sent_envelopes fx))"

text \<open>The failed assertions.\<close>

fun missing :: "effect \<Rightarrow> jsval list" where
  "missing (MissingArgument signature) = [signature]"
| "missing _ = []"

definition missing_arguments :: "effect list \<Rightarrow> jsval list" where
  "missing_arguments fx = concat (map missing fx)"

text \<open>The stored callbacks that were called, each with the payload it was given.\<close>

fun invocation :: "effect \<Rightarrow> (continuation \<times> (string \<times> json) list) list" where
  "invocation (Invoke callback payload) = [(callback, payload)]"
| "invocation _ = []"

definition invocations :: "effect list \<Rightarrow> (continuation \<times> (string \<times> json) list) list" where
  "invocations fx = concat (map invocation fx)"

text \<open>Every key of the table of callbacks is an id that was handed out.\<close>

text \<open>The state once the first connection is open.\<close>

definition connected_state :: state where
  "connected_state = fst (run [Connect, AttachDebuggerReply (Some [])] initial_state)"

definition callbacks_allocated :: "state \<Rightarrow> bool" where
  "callbacks_allocated s = (\<forall>i \<in> dom (messageCallbacks s). i < messageId s)"

subsection \<open>The event library\<close>

text \<open>
  Modelled from the spec: the event library (jQuery's \<open>on\<close> and \<open>triggerHandler\<close>) is not
  among the source files. Its contract, after the specification's EventSubscription (a
  mapping from (domain, eventName) to listeners):
  \<open>$(exports[domain]).triggerHandler(eventName, data)\<close> calls, with \<open>data\<close>, the listeners
  registered on the object \<open>exports[domain]\<close> for the event \<open>eventName\<close>, and no other.
  \<open>subs domain eventName\<close> lists those listeners. A call is recorded as the domain and
  the event it was made for, the listener and the data. A trigger that names no event
  is not covered by the contract and records no call. The domain objects are those
  \<open>init\<close> makes; a first piece that names another member of \<open>exports\<close> is outside the
  model.
\<close>

fun listener_calls ::
  "(string \<Rightarrow> string \<Rightarrow> nat list) \<Rightarrow> effect \<Rightarrow> (string \<times> string \<times> nat \<times> json option) list" where
  "listener_calls subs (DomainTrigger (Some d) (Some e) data) =
     map (\<lambda>l. (d, e, l, data)) (subs d e)"
| "listener_calls subs _ = []"

text \<open>
  The specification's wording for the event name, "split \<open>message.method\<close> into domain
  and eventName on the first separator": the text before the first separator and the
  text after it.
\<close>

definition spec_split_first_separator :: "string \<Rightarrow> string \<times> string" where
  "spec_split_first_separator m =
     (takeWhile (\<lambda>x. x \<noteq> CHR ''.'') m, drop 1 (dropWhile (\<lambda>x. x \<noteq> CHR ''.'') m))"

subsection \<open>Scenarios\<close>

text \<open>
  The protocol description of the specification's scenario A (domain \<open>Page\<close>, command
  \<open>navigate\<close> with the one non-optional parameter \<open>url\<close>), the state after
  \<open>Page.navigate("http://example.com", cb)\<close> was called on the first connection, and an
  answer to that command.
\<close>

definition scenario_schema :: "domain_descriptor list" where
  "scenario_schema =
     [\<lparr>domain = ''Page'',
       commands = [\<lparr>command_name = ''navigate'',
                    parameters = [\<lparr>name = ''url'', optional = False\<rparr>]\<rparr>]\<rparr>]"

definition pending_state :: state where
  "pending_state =
     fst (call_command ''Page'' ''navigate'' [Data (JStr ''http://example.com''), Function 7]
            (init scenario_schema connected_state))"

definition answer :: message where
  "answer = \<lparr>msg_id = Some 1, msg_error = None, msg_result = Some (JObj []),
             msg_method = None, msg_params = None\<rparr>"



section \<open>Properties\<close>

subsection \<open>What \<open>_send\<close> does with an open port\<close>

lemma verifySignature_descriptor:
  "verifySignature a (descriptor_value d) = Inr ([], True)"
  by (simp add: verifySignature_def descriptor_value_def)

lemma build_params_descriptor:
  "snd (build_params ds i args params fx) = (fx, None)"
  by (induction ds arbitrary: i params fx) (simp_all add: verifySignature_descriptor)

lemma build_params_eq:
  "build_params ds i args params fx = (fst (build_params ds i args params fx), fx, None)"
  using build_params_descriptor [of ds i args params fx]
  by (cases "build_params ds i args params fx") simp

lemma send_open:
  assumes "port s = Some p"
  shows "send method signature varargs s =
     (s\<lparr>messageId := messageId s + 1,
        messageCallbacks :=
          (messageCallbacks s)(messageId s \<mapsto> fst (snd (extract_callback varargs (messageId s))))\<rparr>,
      [PostMessage p
         [(''cmd'', FString ''sendCommand''), (''method'', FString method),
          (''params'',
           FObject (fst (build_params signature 0
                           (fst (extract_callback varargs (messageId s))) [] []))),
          (''id'', FNumber (messageId s))]
         (fst (snd (extract_callback varargs (messageId s))))],
      Inr (snd (snd (extract_callback varargs (messageId s)))))"
proof -
  obtain args callback promise
    where e: "extract_callback varargs (messageId s) = (args, callback, promise)"
    by (cases "extract_callback varargs (messageId s)") auto
  obtain params where b: "build_params signature 0 args [] [] = (params, [], None)"
    using build_params_eq [of signature 0 args "[]" "[]"] by blast
  show ?thesis
    by (simp add: send_def Let_def assms e b)
qed

lemma connected_state_eq:
  "connected_state = initial_state\<lparr>port := Some 0, portId := 1\<rparr>"
  by (simp add: connected_state_def connect_def disconnect_def attachDebugger_reply_def
      onConnect_def initial_state_def)

lemma pending_state_fields:
  "messageId pending_state = 2"
  "messageCallbacks pending_state = [1 \<mapsto> Callback 7]"
  "port pending_state = Some 0"
  by (simp_all add: pending_state_def scenario_schema_def connected_state_eq initial_state_def
      call_command_def init_def init_domain_def send_open extract_callback_def)

lemma invocations_simps:
  "invocations [] = []"
  "invocations (e # fx) = invocation e @ invocations fx"
  by (simp_all add: invocations_def)

subsection \<open>Correlation ids\<close>

lemma send_sent_ids:
  "sent_ids (fst (snd (send method signature varargs s))) =
     [messageId s ..< messageId (fst (send method signature varargs s))] \<and>
   messageId s \<le> messageId (fst (send method signature varargs s))"
proof (cases "port s")
  case None
  then show ?thesis by (simp add: send_def sent_ids_def)
next
  case (Some p)
  then show ?thesis by (simp add: send_open sent_ids_def)
qed

lemma onMessage_frame:
  "messageId (fst (onMessage response s)) = messageId s \<and>
   sent_ids (fst (snd (onMessage response s))) = []"
  by (simp add: onMessage_def Let_def sent_ids_def delete_callback_def
      split: option.splits json.splits)

lemma step_sent_ids:
  "sent_ids (snd (step x s)) = [messageId s ..< messageId (fst (step x s))] \<and>
   messageId s \<le> messageId (fst (step x s))"
proof (cases x)
  case (Send m sg va)
  then show ?thesis
    using send_sent_ids [of m sg va s]
    by (simp add: split_beta)
next
  case (CallCommand dname cmd args)
  show ?thesis
  proof (cases "exports s dname")
    case None
    with CallCommand show ?thesis by (simp add: call_command_def sent_ids_def)
  next
    case (Some cs)
    show ?thesis
    proof (cases "cs cmd")
      case None
      with CallCommand Some show ?thesis by (simp add: call_command_def sent_ids_def)
    next
      case (Some b)
      obtain m sg where "b = (m, sg)" by (cases b)
      with CallCommand \<open>exports s dname = Some cs\<close> Some show ?thesis
        using send_sent_ids [of m sg args s]
        by (simp add: call_command_def split_beta)
    qed
  qed
next
  case (OnMessage response)
  then show ?thesis
    using onMessage_frame [of response s] by (simp add: split_beta)
next
  case OnDisconnect
  then show ?thesis by (simp add: onDisconnect_def sent_ids_def)
next
  case (AttachDebuggerReply result)
  then show ?thesis
    by (simp add: attachDebugger_reply_def onError_def onConnect_def sent_ids_def Let_def
        split: option.splits)
next
  case Connect
  then show ?thesis
    by (simp add: connect_def disconnect_def sent_ids_def split: option.splits)
next
  case Disconnect
  then show ?thesis by (simp add: disconnect_def sent_ids_def split: option.splits)
next
  case ConnectToURL
  then show ?thesis
    by (simp add: connectToURL_def connect_def disconnect_def sent_ids_def
        split: option.splits)
next
  case (Init InspectorJSON)
  then show ?thesis by (simp add: init_def sent_ids_def)
qed

lemma sent_ids_append: "sent_ids (fx @ fx') = sent_ids fx @ sent_ids fx'"
  by (simp add: sent_ids_def)

lemma upt_join: "a \<le> b \<Longrightarrow> b \<le> c \<Longrightarrow> [a ..< b] @ [b ..< c] = [a ..< c]"
  by (metis le_Suc_ex upt_add_eq_append)

lemma run_sent_ids:
  "sent_ids (snd (run xs s)) = [messageId s ..< messageId (fst (run xs s))] \<and>
   messageId s \<le> messageId (fst (run xs s))"
proof (induction xs arbitrary: s)
  case Nil
  show ?case by (simp add: sent_ids_def)
next
  case (Cons x xs)
  obtain s1 fx1 where st: "step x s = (s1, fx1)" by (cases "step x s")
  obtain s2 fx2 where rn: "run xs s1 = (s2, fx2)" by (cases "run xs s1")
  from step_sent_ids [of x s] st
  have a: "sent_ids fx1 = [messageId s ..< messageId s1]" "messageId s \<le> messageId s1"
    by simp_all
  from Cons.IH [of s1] rn
  have b: "sent_ids fx2 = [messageId s1 ..< messageId s2]" "messageId s1 \<le> messageId s2"
    by simp_all
  show ?case
    using a b st rn by (simp add: sent_ids_append upt_join)
qed

text \<open>
  C1. Whatever the module goes through from a state \<open>s\<close> (commands sent with or without
  an open port, messages, disconnects, closures, reconnects), the ids of the envelopes
  posted to the port are, in the order posted, the consecutive numbers from the counter
  of \<open>s\<close> up to the final counter: strictly increasing and pairwise distinct. The counter
  never goes down, so it is not reset by a disconnect or a reconnect. It starts at 1, so
  the first command of the process gets the id 1.
\<close>

theorem C1_correlation_ids_increase:
  "sent_ids (snd (run xs s)) = [messageId s ..< messageId (fst (run xs s))] \<and>
   messageId s \<le> messageId (fst (run xs s)) \<and>
   sorted_wrt (<) (sent_ids (snd (run xs s))) \<and>
   distinct (sent_ids (snd (run xs s))) \<and>
   messageId initial_state = 1"
proof -
  have "sorted_wrt (<) [messageId s ..< messageId (fst (run xs s))]"
    by (rule sorted_wrt_upt)
  then show ?thesis
    using run_sent_ids [of xs s] by (simp add: initial_state_def)
qed

theorem C1_correlation_ids_increase_witness:
  "sent_ids (snd (run [Connect, AttachDebuggerReply (Some []), Send ''Page.enable'' [] [],
                       Send ''DOM.enable'' [] [Function 0], Disconnect,
                       Send ''Page.reload'' [] [], Connect, AttachDebuggerReply (Some []),
                       Send ''CSS.enable'' [] []] initial_state)) = [1, 2, 3] \<and>
   messageId (fst (run [Connect, AttachDebuggerReply (Some []), Send ''Page.enable'' [] [],
                        Send ''DOM.enable'' [] [Function 0], Disconnect,
                        Send ''Page.reload'' [] [], Connect, AttachDebuggerReply (Some []),
                        Send ''CSS.enable'' [] []] initial_state)) = 4"
  using C1_correlation_ids_increase
    [of "[Connect, AttachDebuggerReply (Some []), Send ''Page.enable'' [] [],
          Send ''DOM.enable'' [] [Function 0], Disconnect,
          Send ''Page.reload'' [] [], Connect, AttachDebuggerReply (Some []),
          Send ''CSS.enable'' [] []]" initial_state]
  by (simp add: initial_state_def send_def extract_callback_def connect_def disconnect_def
      attachDebugger_reply_def onConnect_def sent_ids_def Let_def)

subsection \<open>Answers\<close>


lemma onMessage_answer:
  assumes "\<not> truthy (msg_error response)" and "msg_result response = Some (JObj result)"
  shows "onMessage response s =
     (case lookup_callback s (msg_id response) of
        Some callback \<Rightarrow>
          (delete_callback (msg_id response) s,
           [ExportsTrigger ''message'' (MessageData response),
            Invoke callback (normalize_result result)],
           response\<lparr>msg_result := Some (JObj (normalize_result result))\<rparr>, None)
      | None \<Rightarrow>
          (s, [ExportsTrigger ''message'' (MessageData response)],
           response\<lparr>msg_result := Some (JObj (normalize_result result))\<rparr>, None))"
  using assms by (simp add: onMessage_def Let_def split: option.splits)




text \<open>
  C10, as amended. For a message whose \<open>error\<close> is falsy, whose \<open>result\<close> is an object and
  whose \<open>result.result\<close> is absent (or otherwise falsy), nothing is thrown and the message
  leaves \<open>_onMessage\<close> with \<open>result.result\<close> set to \<open>{ type: "undefined" }\<close> and nothing
  else changed, whether or not a callback is stored for its id; a callback that is
  stored is called with the object so changed.
\<close>

theorem C10_normalisation_precedes_lookup:
  assumes "\<not> truthy (msg_error response)" and "msg_result response = Some (JObj result)"
    and "\<not> truthy (map_of result ''result'')"
  shows "case onMessage response s of
           (s', fx, response', thrown) \<Rightarrow>
             thrown = None \<and>
             response' =
               response\<lparr>msg_result :=
                 Some (JObj (set_property ''result''
                               (JObj [(''type'', JStr ''undefined'')]) result))\<rparr> \<and>
             invocations fx =
               (case msg_id response of
                  None \<Rightarrow> []
                | Some n \<Rightarrow>
                    (case messageCallbacks s n of
                       Some callback \<Rightarrow>
                         [(callback,
                           set_property ''result''
                             (JObj [(''type'', JStr ''undefined'')]) result)]
                     | None \<Rightarrow> []))"
  using assms
  by (simp add: onMessage_answer invocations_simps lookup_callback_def normalize_result_def
      split: option.splits)

theorem C10_normalisation_precedes_lookup_witness:
  "\<not> truthy (msg_error answer) \<and> msg_result answer = Some (JObj []) \<and>
   \<not> truthy (map_of ([] :: (string \<times> json) list) ''result'') \<and>
   messageCallbacks connected_state 1 = None \<and>
   msg_result (fst (snd (snd (onMessage answer connected_state)))) =
     Some (JObj [(''result'', JObj [(''type'', JStr ''undefined'')])]) \<and>
   invocations (fst (snd (onMessage answer connected_state))) = [] \<and>
   messageCallbacks pending_state 1 = Some (Callback 7) \<and>
   msg_result (fst (snd (snd (onMessage answer pending_state)))) =
     Some (JObj [(''result'', JObj [(''type'', JStr ''undefined'')])]) \<and>
   invocations (fst (snd (onMessage answer pending_state))) =
     [(Callback 7, [(''result'', JObj [(''type'', JStr ''undefined'')])])]"
  using C10_normalisation_precedes_lookup [of answer "[]" connected_state]
    C10_normalisation_precedes_lookup [of answer "[]" pending_state]
  by (simp add: answer_def connected_state_eq initial_state_def pending_state_fields
      split: prod.splits)

text \<open>
  The claim C10 as stated asks only for a truthy \<open>result\<close>. A message that also has a
  truthy \<open>error\<close> is handled as an error: its \<open>result\<close> (here the object \<open>{}\<close>, which has no
  \<open>result\<close> member) is left as it came. And for the truthy \<open>result\<close> 1, which is no object
  and has no \<open>result\<close> member, the assignment throws and nothing is set.
\<close>

theorem C10_counterexample:
  "truthy (msg_error (answer\<lparr>msg_error := Some (JStr ''boom'')\<rparr>)) \<and>
   truthy (msg_result (answer\<lparr>msg_error := Some (JStr ''boom'')\<rparr>)) \<and>
   msg_result (answer\<lparr>msg_error := Some (JStr ''boom'')\<rparr>) = Some (JObj []) \<and>
   map_of ([] :: (string \<times> json) list) ''result'' = None \<and>
   msg_result (fst (snd (snd (onMessage (answer\<lparr>msg_error := Some (JStr ''boom'')\<rparr>)
                                 connected_state)))) = Some (JObj []) \<and>
   \<not> truthy (msg_error (answer\<lparr>msg_result := Some (JNum 1)\<rparr>)) \<and>
   truthy (msg_result (answer\<lparr>msg_result := Some (JNum 1)\<rparr>)) \<and>
   msg_result (fst (snd (snd (onMessage (answer\<lparr>msg_result := Some (JNum 1)\<rparr>)
                                 connected_state)))) = Some (JNum 1) \<and>
   snd (snd (snd (onMessage (answer\<lparr>msg_result := Some (JNum 1)\<rparr>) connected_state))) =
     Some TypeError"
  by (simp add: answer_def onMessage_def Let_def)

subsection \<open>Sending\<close>

text \<open>
  C3. A command sent while \<open>connected()\<close> is false does nothing: the state (so the id
  counter and the table of callbacks) is unchanged, no call is made on any collaborator
  (so no envelope is posted), nothing is thrown and \<open>undefined\<close> is returned.
\<close>

theorem C3_send_without_port_is_noop:
  "\<not> connected s \<Longrightarrow> send method signature varargs s = (s, [], Inr None)"
  by (simp add: send_def connected_def)

theorem C3_send_without_port_is_noop_witness:
  "\<not> connected initial_state \<and>
   send ''Page.navigate'' [\<lparr>name = ''url'', optional = False\<rparr>]
     [Data (JStr ''http://example.com''), Function 0] initial_state
   = (initial_state, [], Inr None)"
proof -
  have h: "\<not> connected initial_state"
    by (simp add: initial_state_def connected_def)
  show ?thesis
    using h C3_send_without_port_is_noop [OF h] by simp
qed

text \<open>
  C5, as amended. The first command sent (the counter is 1) on an open port \<open>p\<close>, made by
  \<open>init\<close> from the scenario's description and called as
  \<open>Page.navigate("http://example.com", cb)\<close>, posts exactly one envelope, with the four
  members \<open>cmd: "sendCommand"\<close>, \<open>method: "Page.navigate"\<close>,
  \<open>params: {url: "http://example.com"}\<close> and \<open>id: 1\<close>, and makes no other call.
\<close>

theorem C5_first_envelope:
  assumes "port s = Some p" and "messageId s = 1"
  shows "fst (snd (call_command ''Page'' ''navigate''
                     [Data (JStr ''http://example.com''), Function cb]
                     (init scenario_schema s))) =
         [PostMessage p
            [(''cmd'', FString ''sendCommand''), (''method'', FString ''Page.navigate''),
             (''params'', FObject [(''url'', Data (JStr ''http://example.com''))]),
             (''id'', FNumber 1)]
            (Callback cb)]"
  using assms
  by (simp add: scenario_schema_def call_command_def init_def init_domain_def send_def
      extract_callback_def verifySignature_descriptor arg_at_def Let_def)

theorem C5_first_envelope_witness:
  "port connected_state = Some 0 \<and> messageId connected_state = 1 \<and>
   sent_envelopes
     (fst (snd (call_command ''Page'' ''navigate''
                  [Data (JStr ''http://example.com''), Function 7]
                  (init scenario_schema connected_state)))) =
     [[(''cmd'', FString ''sendCommand''), (''method'', FString ''Page.navigate''),
       (''params'', FObject [(''url'', Data (JStr ''http://example.com''))]),
       (''id'', FNumber 1)]]"
  using C5_first_envelope [of connected_state 0 7]
  by (simp add: connected_state_eq initial_state_def sent_envelopes_def)

text \<open>
  The claim C5 as stated names the first member \<open>verb\<close>. The envelope posted in the
  scenario is not the one the claim gives, and it has no member \<open>verb\<close>.
\<close>

theorem C5_counterexample:
  "sent_envelopes
     (fst (snd (call_command ''Page'' ''navigate''
                  [Data (JStr ''http://example.com''), Function 7]
                  (init scenario_schema connected_state))))
     \<noteq> [[(''verb'', FString ''sendCommand''), (''method'', FString ''Page.navigate''),
          (''params'', FObject [(''url'', Data (JStr ''http://example.com''))]),
          (''id'', FNumber 1)]] \<and>
   map (\<lambda>env. map_of env ''verb'')
     (sent_envelopes
       (fst (snd (call_command ''Page'' ''navigate''
                    [Data (JStr ''http://example.com''), Function 7]
                    (init scenario_schema connected_state)))))
     = [None]"
  by (simp add: scenario_schema_def connected_state_eq initial_state_def call_command_def
      init_def init_domain_def send_def extract_callback_def verifySignature_descriptor
      arg_at_def sent_envelopes_def Let_def)

lemma missing_arguments_send:
  "missing_arguments (fst (snd (send method signature varargs s))) = []"
proof (cases "port s")
  case None
  then show ?thesis by (simp add: send_def missing_arguments_def)
next
  case (Some p)
  then show ?thesis by (simp add: send_open missing_arguments_def)
qed

text \<open>
  C6. \<open>Page.navigate()\<close>, without the non-optional \<open>url\<close>, as the first command on the
  first connection: the envelope is posted, with \<open>url: undefined\<close> and the id 1, and a
  promise is returned, but no assertion fails, so nothing signals the missing argument.
  \<open>_send\<close> calls \<open>_verifySignature(args[i], signature[i])\<close>, the value first, while the
  function is declared \<open>_verifySignature(signature, value)\<close>: what it tests against
  \<open>undefined\<close> is the parameter object. Called in the declared order it does signal the
  missing \<open>url\<close> (last conjunct). By \<open>missing_arguments_send\<close> no call of \<open>_send\<close> ever
  signals a missing argument.
\<close>

theorem C6_missing_argument_not_signalled:
  "send ''Page.navigate'' [\<lparr>name = ''url'', optional = False\<rparr>] [] connected_state =
     (connected_state\<lparr>messageId := 2, messageCallbacks := [1 \<mapsto> ResolveDeferred 1]\<rparr>,
      [PostMessage 0
         [(''cmd'', FString ''sendCommand''), (''method'', FString ''Page.navigate''),
          (''params'', FObject [(''url'', Undefined)]), (''id'', FNumber 1)]
         (ResolveDeferred 1)],
      Inr (Some 1)) \<and>
   missing_arguments
     (fst (snd (send ''Page.navigate'' [\<lparr>name = ''url'', optional = False\<rparr>] []
                  connected_state))) = [] \<and>
   verifySignature (descriptor_value \<lparr>name = ''url'', optional = False\<rparr>) Undefined =
     Inr ([MissingArgument (descriptor_value \<lparr>name = ''url'', optional = False\<rparr>)], True)"
  by (simp add: connected_state_eq initial_state_def send_def extract_callback_def
      verifySignature_def descriptor_value_def optional_is_true_def arg_at_def
      missing_arguments_def Let_def)

lemma map_of_set_property: "map_of (set_property k v ms) = (map_of ms)(k \<mapsto> v)"
  by (induction ms) auto

lemma build_params_absent_kept:
  "length args \<le> i \<Longrightarrow> map_of params k = Some Undefined \<Longrightarrow>
   map_of (fst (build_params ds i args params fx)) k = Some Undefined"
  by (induction ds arbitrary: i params fx)
     (simp_all add: verifySignature_descriptor arg_at_def map_of_set_property)

lemma build_params_absent:
  "j < length ds \<Longrightarrow> length args \<le> i + j \<Longrightarrow>
   map_of (fst (build_params ds i args params fx)) (name (ds ! j)) = Some Undefined"
proof (induction ds arbitrary: i j params fx)
  case Nil
  then show ?case by simp
next
  case (Cons d ds)
  show ?case
  proof (cases j)
    case 0
    with Cons.prems show ?thesis
      by (simp add: verifySignature_descriptor arg_at_def build_params_absent_kept
          map_of_set_property)
  next
    case (Suc j')
    with Cons.prems Cons.IH [of j' "Suc i"] show ?thesis
      by (simp add: verifySignature_descriptor)
  qed
qed

lemma sent_params_send:
  assumes "port s = Some p"
  shows "sent_params (fst (snd (send method signature varargs s))) =
         [fst (build_params signature 0 (fst (extract_callback varargs (messageId s))) [] [])]"
  using assms by (simp add: send_open sent_params_def sent_envelopes_def)

text \<open>
  C7, as amended. When a command is sent on an open port and the parameter at position
  \<open>j\<close> of its signature has no argument (the arguments, without a callback passed last,
  are at most \<open>j\<close>), the one envelope posted has a \<open>params\<close> object in which the name of
  that parameter is a member, with the value \<open>undefined\<close>. This holds for an optional
  parameter as for any other.
\<close>

theorem C7_absent_argument_is_sent_undefined:
  assumes "port s = Some p" and "j < length signature"
    and "length (fst (extract_callback varargs (messageId s))) \<le> j"
  shows "map (\<lambda>params. map_of params (name (signature ! j)))
             (sent_params (fst (snd (send method signature varargs s)))) = [Some Undefined]"
  using assms
    build_params_absent
      [of j signature "fst (extract_callback varargs (messageId s))" 0 "[]" "[]"]
  by (simp add: sent_params_send)

theorem C7_absent_argument_is_sent_undefined_witness:
  "port connected_state = Some 0 \<and>
   length (fst (extract_callback [Data (JBool True), Function 3]
                  (messageId connected_state))) \<le> 1 \<and>
   map (\<lambda>params. map_of params ''scriptToEvaluateOnLoad'')
       (sent_params (fst (snd (send ''Page.reload''
          [\<lparr>name = ''ignoreCache'', optional = True\<rparr>,
           \<lparr>name = ''scriptToEvaluateOnLoad'', optional = True\<rparr>]
          [Data (JBool True), Function 3] connected_state)))) = [Some Undefined]"
  using C7_absent_argument_is_sent_undefined
    [of connected_state 0 1
        "[\<lparr>name = ''ignoreCache'', optional = True\<rparr>,
          \<lparr>name = ''scriptToEvaluateOnLoad'', optional = True\<rparr>]"
        "[Data (JBool True), Function 3]" "''Page.reload''"]
  by (simp add: connected_state_eq initial_state_def extract_callback_def)

text \<open>
  The claim C7 as stated has the name left out. \<open>Page.reload(cb)\<close>, without the optional
  \<open>ignoreCache\<close>, posts the \<open>params\<close> object \<open>{ignoreCache: undefined}\<close>: the name is a
  member of it.
\<close>

theorem C7_counterexample:
  "optional \<lparr>name = ''ignoreCache'', optional = True\<rparr> \<and>
   sent_params (fst (snd (send ''Page.reload'' [\<lparr>name = ''ignoreCache'', optional = True\<rparr>]
                            [Function 3] connected_state)))
     = [[(''ignoreCache'', Undefined)]]"
  by (simp add: connected_state_eq initial_state_def send_def extract_callback_def
      verifySignature_descriptor arg_at_def sent_params_def sent_envelopes_def Let_def)

subsection \<open>Events\<close>

lemma split_on_unfold:
  "split_on c s =
     takeWhile (\<lambda>x. x \<noteq> c) s #
     (if c \<in> set s then split_on c (drop 1 (dropWhile (\<lambda>x. x \<noteq> c) s)) else [])"
  by (induction s) (auto split: list.splits)

lemma split_on_first: "nth_opt (split_on c s) 0 = Some (takeWhile (\<lambda>x. x \<noteq> c) s)"
  by (subst split_on_unfold) (simp add: nth_opt_def)

lemma split_on_second:
  "nth_opt (split_on c s) 1 =
     (if c \<in> set s
      then Some (takeWhile (\<lambda>x. x \<noteq> c) (drop 1 (dropWhile (\<lambda>x. x \<noteq> c) s)))
      else None)"
proof (cases "c \<in> set s")
  case True
  have "split_on c s =
          takeWhile (\<lambda>x. x \<noteq> c) s # split_on c (drop 1 (dropWhile (\<lambda>x. x \<noteq> c) s))"
    using True by (subst split_on_unfold) simp
  moreover have "nth_opt (split_on c (drop 1 (dropWhile (\<lambda>x. x \<noteq> c) s))) 0 =
          Some (takeWhile (\<lambda>x. x \<noteq> c) (drop 1 (dropWhile (\<lambda>x. x \<noteq> c) s)))"
    by (rule split_on_first)
  ultimately show ?thesis
    using True by (simp add: nth_opt_def split: if_splits)
next
  case False
  then have "split_on c s = [takeWhile (\<lambda>x. x \<noteq> c) s]"
    by (subst split_on_unfold) simp
  with False show ?thesis by (simp add: nth_opt_def)
qed

lemma onMessage_event:
  assumes "\<not> truthy (msg_error response)" and "msg_result response = None"
    and "msg_method response = Some m"
  shows "onMessage response s =
     (s,
      [ExportsTrigger ''message'' (MessageData response),
       DomainTrigger (Some (takeWhile (\<lambda>x. x \<noteq> CHR ''.'') m))
         (if CHR ''.'' \<in> set m
          then Some (takeWhile (\<lambda>x. x \<noteq> CHR ''.'')
                       (drop 1 (dropWhile (\<lambda>x. x \<noteq> CHR ''.'') m)))
          else None)
         (msg_params response)],
      response, None)"
  using assms split_on_first [of "CHR ''.''" m] split_on_second [of "CHR ''.''" m]
  by (simp add: onMessage_def Let_def)

text \<open>
  C4, as amended. For a message with a falsy \<open>error\<close>, no \<open>result\<close>, and a \<open>method\<close> that
  contains a separator: the domain is the text before the first separator, and the event
  name is the text after it up to the next separator (all of it when there is no other).
  The state is unchanged, nothing is thrown, the message is published as \<open>message\<close>, and
  the listeners called on domain objects are exactly those registered for that domain
  and event name, each with \<open>message.params\<close>, in the order they are registered.
\<close>

theorem C4_event_listeners:
  assumes "\<not> truthy (msg_error response)" and "msg_result response = None"
    and "msg_method response = Some m" and "CHR ''.'' \<in> set m"
  shows "case onMessage response s of
           (s', fx, response', thrown) \<Rightarrow>
             s' = s \<and> thrown = None \<and>
             fx = [ExportsTrigger ''message'' (MessageData response),
                   DomainTrigger (Some (fst (spec_split_first_separator m)))
                     (Some (takeWhile (\<lambda>x. x \<noteq> CHR ''.'')
                              (snd (spec_split_first_separator m))))
                     (msg_params response)] \<and>
             concat (map (listener_calls subs) fx) =
               map (\<lambda>l. (fst (spec_split_first_separator m),
                          takeWhile (\<lambda>x. x \<noteq> CHR ''.'') (snd (spec_split_first_separator m)),
                          l, msg_params response))
                   (subs (fst (spec_split_first_separator m))
                         (takeWhile (\<lambda>x. x \<noteq> CHR ''.'')
                            (snd (spec_split_first_separator m))))"
  using assms
  by (simp add: onMessage_event spec_split_first_separator_def)

theorem C4_event_listeners_witness:
  "\<not> truthy (msg_error \<lparr>msg_id = None, msg_error = None, msg_result = None,
                         msg_method = Some ''Page.loadEventFired'',
                         msg_params = Some (JObj [(''timestamp'', JNum 42)])\<rparr>) \<and>
   CHR ''.'' \<in> set ''Page.loadEventFired'' \<and>
   concat (map (listener_calls
                  (\<lambda>d e. if d = ''Page'' \<and> e = ''loadEventFired'' then [1, 2]
                         else if d = ''Page'' \<and> e = ''domContentEventFired'' then [3]
                         else if d = ''DOM'' \<and> e = ''loadEventFired'' then [4] else []))
               (fst (snd (onMessage
                  \<lparr>msg_id = None, msg_error = None, msg_result = None,
                   msg_method = Some ''Page.loadEventFired'',
                   msg_params = Some (JObj [(''timestamp'', JNum 42)])\<rparr> connected_state))))
     = [(''Page'', ''loadEventFired'', 1, Some (JObj [(''timestamp'', JNum 42)])),
        (''Page'', ''loadEventFired'', 2, Some (JObj [(''timestamp'', JNum 42)]))]"
  using C4_event_listeners
    [of "\<lparr>msg_id = None, msg_error = None, msg_result = None,
          msg_method = Some ''Page.loadEventFired'',
          msg_params = Some (JObj [(''timestamp'', JNum 42)])\<rparr>" "''Page.loadEventFired''"
        connected_state
        "\<lambda>d e. if d = ''Page'' \<and> e = ''loadEventFired'' then [1, 2]
               else if d = ''Page'' \<and> e = ''domContentEventFired'' then [3]
               else if d = ''DOM'' \<and> e = ''loadEventFired'' then [4] else []"]
  by (simp add: spec_split_first_separator_def split: prod.splits)

text \<open>
  The claim C4 as stated splits on the first separator only. For the method
  \<open>Page.loadEventFired.x\<close> that gives the event name \<open>loadEventFired.x\<close>; the module
  calls the listener registered for \<open>loadEventFired\<close> (listener 2) and not the one
  registered for \<open>loadEventFired.x\<close> (listener 1). And a message that has no \<open>error\<close>, no
  \<open>result\<close> and no \<open>method\<close> makes \<open>_onMessage\<close> throw.
\<close>

theorem C4_counterexample:
  "spec_split_first_separator ''Page.loadEventFired.x'' = (''Page'', ''loadEventFired.x'') \<and>
   concat (map (listener_calls
                  (\<lambda>d e. if d = ''Page'' \<and> e = ''loadEventFired.x'' then [1]
                         else if d = ''Page'' \<and> e = ''loadEventFired'' then [2] else []))
               (fst (snd (onMessage
                  \<lparr>msg_id = None, msg_error = None, msg_result = None,
                   msg_method = Some ''Page.loadEventFired.x'',
                   msg_params = Some (JObj [(''timestamp'', JNum 42)])\<rparr> connected_state))))
     = [(''Page'', ''loadEventFired'', 2, Some (JObj [(''timestamp'', JNum 42)]))] \<and>
   snd (snd (snd (onMessage
                  \<lparr>msg_id = None, msg_error = None, msg_result = None,
                   msg_method = None, msg_params = None\<rparr> connected_state)))
     = Some TypeError"
  by (simp add: spec_split_first_separator_def onMessage_def Let_def nth_opt_def)

subsection \<open>Closure of the port, and the table of callbacks\<close>

text \<open>
  C8. When the port is closed from the other side, the module publishes \<open>disconnect\<close>
  and forgets the port, and that is all: the table of callbacks is the one it was, with
  every entry and its callback, and no stored callback is called.
\<close>

theorem C8_closure_keeps_pending_calls:
  "fst (onDisconnect s) = s\<lparr>port := None\<rparr> \<and>
   messageCallbacks (fst (onDisconnect s)) = messageCallbacks s \<and>
   port (fst (onDisconnect s)) = None \<and>
   snd (onDisconnect s) = [ExportsTrigger ''disconnect'' NoData] \<and>
   invocations (snd (onDisconnect s)) = []"
  by (simp add: onDisconnect_def invocations_simps)

theorem C8_closure_keeps_pending_calls_witness:
  "messageCallbacks (fst (onDisconnect pending_state)) 1 = Some (Callback 7) \<and>
   port (fst (onDisconnect pending_state)) = None \<and>
   snd (onDisconnect pending_state) = [ExportsTrigger ''disconnect'' NoData]"
  using C8_closure_keeps_pending_calls [of pending_state]
  by (simp add: pending_state_fields)

lemma send_callbacks_allocated:
  assumes "callbacks_allocated s"
  shows "callbacks_allocated (fst (send method signature varargs s))"
proof (cases "port s")
  case None
  with assms show ?thesis by (simp add: send_def)
next
  case (Some p)
  with assms show ?thesis
    by (auto simp add: send_open callbacks_allocated_def less_Suc_eq split: if_splits)
qed

lemma onMessage_callbacks_allocated:
  assumes "callbacks_allocated s"
  shows "callbacks_allocated (fst (onMessage response s))"
  using assms
  by (auto simp add: onMessage_def Let_def callbacks_allocated_def delete_callback_def
      split: option.splits json.splits if_splits)

lemma step_callbacks_allocated:
  assumes "callbacks_allocated s"
  shows "callbacks_allocated (fst (step x s))"
proof (cases x)
  case (Send m sg va)
  then show ?thesis
    using send_callbacks_allocated [OF assms, of m sg va]
    by (simp add: split_beta)
next
  case (CallCommand dname cmd args)
  show ?thesis
  proof (cases "exports s dname")
    case None
    with CallCommand assms show ?thesis by (simp add: call_command_def)
  next
    case (Some cs)
    show ?thesis
    proof (cases "cs cmd")
      case None
      with CallCommand Some assms show ?thesis by (simp add: call_command_def)
    next
      case (Some b)
      obtain m sg where "b = (m, sg)" by (cases b)
      with CallCommand \<open>exports s dname = Some cs\<close> Some show ?thesis
        using send_callbacks_allocated [OF assms, of m sg args]
        by (simp add: call_command_def split_beta)
    qed
  qed
next
  case (OnMessage response)
  then show ?thesis
    using onMessage_callbacks_allocated [OF assms, of response] by (simp add: split_beta)
next
  case OnDisconnect
  with assms show ?thesis by (simp add: onDisconnect_def callbacks_allocated_def)
next
  case (AttachDebuggerReply result)
  with assms show ?thesis
    by (simp add: attachDebugger_reply_def onError_def onConnect_def callbacks_allocated_def
        Let_def split: option.splits)
next
  case Connect
  with assms show ?thesis
    by (simp add: connect_def disconnect_def callbacks_allocated_def split: option.splits)
next
  case Disconnect
  with assms show ?thesis
    by (simp add: disconnect_def callbacks_allocated_def split: option.splits)
next
  case ConnectToURL
  with assms show ?thesis
    by (simp add: connectToURL_def connect_def disconnect_def callbacks_allocated_def
        split: option.splits)
next
  case (Init InspectorJSON)
  with assms show ?thesis by (simp add: init_def callbacks_allocated_def)
qed

lemma run_callbacks_allocated:
  "callbacks_allocated s \<Longrightarrow> callbacks_allocated (fst (run xs s))"
proof (induction xs arbitrary: s)
  case Nil
  then show ?case by simp
next
  case (Cons x xs)
  from Cons.IH [OF step_callbacks_allocated [OF Cons.prems, of x]]
  show ?case by (simp add: split_beta)
qed

lemma initial_callbacks_allocated: "callbacks_allocated initial_state"
  by (simp add: callbacks_allocated_def initial_state_def)

text \<open>
  C9. Every function of the module entered from outside (a command sent, a message
  routed, \<open>connect\<close> and the reply to it, \<open>disconnect\<close>, \<open>connectToURL\<close>, \<open>init\<close>, a
  closure of the port) keeps the invariant that every key of the table of callbacks is
  below the id counter. It holds at the start, so it holds in every state the module
  reaches.
\<close>

theorem C9_table_holds_allocated_ids_only:
  "(callbacks_allocated s \<longrightarrow> callbacks_allocated (fst (step x s))) \<and>
   callbacks_allocated (fst (run xs initial_state))"
  using step_callbacks_allocated run_callbacks_allocated initial_callbacks_allocated
  by blast

theorem C9_table_holds_allocated_ids_only_witness:
  "callbacks_allocated pending_state \<and>
   callbacks_allocated (fst (step (OnMessage answer) pending_state)) \<and>
   callbacks_allocated
     (fst (step (Send ''Page.reload'' [] [Function 3]) pending_state)) \<and>
   dom (messageCallbacks (fst (step (Send ''Page.reload'' [] [Function 3]) pending_state)))
     = {1, 2} \<and>
   messageId (fst (step (Send ''Page.reload'' [] [Function 3]) pending_state)) = 3"
proof -
  have h: "callbacks_allocated pending_state"
    by (simp add: callbacks_allocated_def pending_state_fields)
  show ?thesis
    using h C9_table_holds_allocated_ids_only [of pending_state "OnMessage answer" "[]"]
      C9_table_holds_allocated_ids_only
        [of pending_state "Send ''Page.reload'' [] [Function 3]" "[]"]
    by (auto simp add: send_open pending_state_fields extract_callback_def)
qed

end
